theory Spec2Isabelle
  imports Main
begin

section \<open>JavaScript values used by the matcher\<close>

text \<open>
  Playtimes and their sums are JavaScript numbers. The Steam API delivers integers, and the
  only non-integer the matcher can produce from them is \<open>NaN\<close> (a number plus
  \<open>undefined\<close>), so a number is an integer or \<open>NaN\<close>. Sums are exact: the model does
  not cover totals beyond \<open>2 ^ 52\<close>, where doubles start to round.
\<close>

datatype jsnum = Num int | NaN

datatype error = TypeError

text \<open>
  A JavaScript string whose characters the code looks at (a game name) is its sequence of
  UTF-16 code units. \<open>units\<close> turns an ASCII literal of the source into code units.
  Display names of friends and names of genres are only stored and compared for equality;
  they stay of type \<open>string\<close>.
\<close>

type_synonym js_string = "nat list"

definition units :: "string \<Rightarrow> js_string" where
  "units s = map of_char s"

fun js_add :: "jsnum \<Rightarrow> jsnum \<Rightarrow> jsnum" where
  "js_add (Num a) (Num b) = Num (a + b)"
| "js_add _ _ = NaN"

fun js_sub :: "jsnum \<Rightarrow> jsnum \<Rightarrow> jsnum" where
  "js_sub (Num a) (Num b) = Num (a - b)"
| "js_sub _ _ = NaN"

text \<open>A numeric property read for arithmetic: an absent property is \<open>undefined\<close>, which
  converts to \<open>NaN\<close>.\<close>

fun to_number :: "int option \<Rightarrow> jsnum" where
  "to_number None = NaN"
| "to_number (Some n) = Num n"

fun prop_number :: "jsnum option \<Rightarrow> jsnum" where
  "prop_number None = NaN"
| "prop_number (Some v) = v"

text \<open>\<open>x || 0\<close> on a numeric property: \<open>undefined\<close> and \<open>0\<close> both give \<open>0\<close>.\<close>

fun or_zero :: "int option \<Rightarrow> int" where
  "or_zero None = 0"
| "or_zero (Some n) = n"

text \<open>\<open>Math.round(total / n)\<close> for a positive count \<open>n\<close>: \<open>Math.round\<close> rounds to the
  nearest integer, a half towards plus infinity, that is \<open>floor (total / n + 1 / 2)\<close>.
  The matcher calls it with \<open>n = friends.length \<ge> 2\<close> only; for \<open>n = 0\<close> JavaScript
  would give an infinity or \<open>NaN\<close>, which the model folds into \<open>NaN\<close>.\<close>

fun math_round_div :: "jsnum \<Rightarrow> nat \<Rightarrow> jsnum" where
  "math_round_div NaN n = NaN"
| "math_round_div (Num t) n =
     (if n = 0 then NaN else Num ((2 * t + int n) div (2 * int n)))"

subsection \<open>Set and Map, in insertion order\<close>

text \<open>A JavaScript \<open>Set\<close> iterates in insertion order and ignores a value it already
  holds: a list without duplicates, a new value going to the end.\<close>

definition set_add :: "'a list \<Rightarrow> 'a \<Rightarrow> 'a list" where
  "set_add s x = (if x \<in> set s then s else s @ [x])"

definition new_Set :: "'a list \<Rightarrow> 'a list" where
  "new_Set xs = foldl set_add [] xs"

text \<open>A JavaScript \<open>Map\<close> is an association list in insertion order; \<open>set\<close> on a key
  already present replaces the value and keeps the position.\<close>

definition map_has :: "('k \<times> 'v) list \<Rightarrow> 'k \<Rightarrow> bool" where
  "map_has m k = (k \<in> set (map fst m))"

definition map_get :: "('k \<times> 'v) list \<Rightarrow> 'k \<Rightarrow> 'v option" where
  "map_get m k = map_of m k"

fun map_set :: "('k \<times> 'v) list \<Rightarrow> 'k \<Rightarrow> 'v \<Rightarrow> ('k \<times> 'v) list" where
  "map_set [] k v = [(k, v)]"
| "map_set ((k', v') # m) k v =
     (if k' = k then (k, v) # m else (k', v') # map_set m k v)"

definition new_Map :: "('k \<times> 'v) list \<Rightarrow> ('k \<times> 'v) list" where
  "new_Map kvs = foldl (\<lambda>m kv. map_set m (fst kv) (snd kv)) [] kvs"

text \<open>\<open>const data = m.get(k); data.field = ...\<close> mutates the object stored under \<open>k\<close>;
  the callers below have made sure that \<open>k\<close> is present.\<close>

fun map_modify :: "('k \<times> 'v) list \<Rightarrow> 'k \<Rightarrow> ('v \<Rightarrow> 'v) \<Rightarrow> ('k \<times> 'v) list" where
  "map_modify [] k f = []"
| "map_modify ((k', v') # m) k f =
     (if k' = k then (k', f v') # m else (k', v') # map_modify m k f)"

subsection \<open>Array.prototype.sort with a comparator\<close>

text \<open>
  \<open>sort\<close> is stable (ECMAScript 2019), so for a consistent comparator its result is
  determined: the stable insertion sort below computes it. A comparator result \<open>NaN\<close>
  counts as \<open>0\<close>. Where \<open>NaN\<close> keys make the comparator inconsistent the standard leaves
  the order to the implementation, and nothing below relies on the order then.
\<close>

fun not_after :: "jsnum \<Rightarrow> bool" where
  "not_after NaN = True"
| "not_after (Num c) = (c \<le> 0)"

fun js_insert :: "('a \<Rightarrow> 'a \<Rightarrow> jsnum) \<Rightarrow> 'a \<Rightarrow> 'a list \<Rightarrow> 'a list" where
  "js_insert cmp x [] = [x]"
| "js_insert cmp x (y # ys) =
     (if not_after (cmp x y) then x # y # ys else y # js_insert cmp x ys)"

fun js_sort :: "('a \<Rightarrow> 'a \<Rightarrow> jsnum) \<Rightarrow> 'a list \<Rightarrow> 'a list" where
  "js_sort cmp [] = []"
| "js_sort cmp (x # xs) = js_insert cmp x (js_sort cmp xs)"

section \<open>Data model\<close>

text \<open>A game as the Steam API delivers it and as the roster keeps it in local storage.
  The matcher guards \<open>name\<close> and \<open>playtime_forever\<close> against absence
  (\<open>game.name || ''\<close>, \<open>playtime_forever || 0\<close>), so both are optional here.\<close>

record game =
  appid :: int
  name :: "js_string option"
  playtime_forever :: "int option"

text \<open>A friend: \<open>friend.name\<close> is the display name, \<open>friend.games\<close> may be absent
  (\<open>friend.games || []\<close>).\<close>

record friend =
  steamId :: string
  friend_name :: string
  games :: "game list option"

definition games_or_empty :: "friend \<Rightarrow> game list" where
  "games_or_empty f = (case games f of None \<Rightarrow> [] | Some gs \<Rightarrow> gs)"

text \<open>An element of the result of \<open>findCommonGames\<close>: the spread \<open>...game\<close> of a game
  object (nothing if the object is \<open>undefined\<close>) and the three added properties. A
  property that the object does not have is \<open>None\<close>.\<close>

record common_game =
  game_spread :: "game option"
  totalPlaytime :: "jsnum option"
  averagePlaytime :: "jsnum option"
  ownerCount :: "nat option"

definition result_appid :: "common_game \<Rightarrow> int option" where
  "result_appid r = map_option appid (game_spread r)"

definition result_name :: "common_game \<Rightarrow> js_string option" where
  "result_name r = (case game_spread r of None \<Rightarrow> None | Some g \<Rightarrow> name g)"

definition result_playtime :: "common_game \<Rightarrow> int option" where
  "result_playtime r = (case game_spread r of None \<Rightarrow> None | Some g \<Rightarrow> playtime_forever g)"

section \<open>findCommonGames\<close>

text \<open>The bare game object, as the one-friend branch returns it.\<close>

definition plain_game :: "game \<Rightarrow> common_game" where
  "plain_game g =
     \<lparr>game_spread = Some g, totalPlaytime = None, averagePlaytime = None, ownerCount = None\<rparr>"

fun map_err :: "('a \<Rightarrow> error + 'b) \<Rightarrow> 'a list \<Rightarrow> error + 'b list" where
  "map_err f [] = Inr []"
| "map_err f (x # xs) =
     (case f x of
        Inl e \<Rightarrow> Inl e
      | Inr y \<Rightarrow> (case map_err f xs of Inl e \<Rightarrow> Inl e | Inr ys \<Rightarrow> Inr (y # ys)))"

text \<open>One step of the \<open>reduce\<close> of lines 32 to 35: \<open>friend.games.find\<close> throws a
  TypeError when \<open>friend.games\<close> is absent.\<close>

fun totalPlaytime_step :: "int \<Rightarrow> error + jsnum \<Rightarrow> friend \<Rightarrow> error + jsnum" where
  "totalPlaytime_step appId (Inl e) friend = Inl e"
| "totalPlaytime_step appId (Inr sum0) friend =
     (case games friend of
        None \<Rightarrow> Inl TypeError
      | Some gs \<Rightarrow>
          (case find (\<lambda>g. appid g = appId) gs of
             Some friendGame \<Rightarrow> Inr (js_add sum0 (to_number (playtime_forever friendGame)))
           | None \<Rightarrow> Inr (js_add sum0 (Num 0))))"

definition totalPlaytime_of :: "friend list \<Rightarrow> int \<Rightarrow> error + jsnum" where
  "totalPlaytime_of friends appId = foldl (totalPlaytime_step appId) (Inr (Num 0)) friends"

definition common_entry ::
  "friend list \<Rightarrow> (int \<times> game) list \<Rightarrow> int \<Rightarrow> error + common_game" where
  "common_entry friends gameMap appId =
     (case totalPlaytime_of friends appId of
        Inl e \<Rightarrow> Inl e
      | Inr tp \<Rightarrow>
          Inr \<lparr>game_spread = map_get gameMap appId,
               totalPlaytime = Some tp,
               averagePlaytime = Some (math_round_div tp (length friends)),
               ownerCount = Some (length friends)\<rparr>)"

definition by_totalPlaytime_desc :: "common_game \<Rightarrow> common_game \<Rightarrow> jsnum" where
  "by_totalPlaytime_desc a b =
     js_sub (prop_number (totalPlaytime b)) (prop_number (totalPlaytime a))"

definition gameSetsByFriend :: "friend list \<Rightarrow> int list list" where
  "gameSetsByFriend friends = map (\<lambda>friend. new_Set (map appid (games_or_empty friend))) friends"

definition commonAppIds :: "friend list \<Rightarrow> int list" where
  "commonAppIds friends =
     filter (\<lambda>appId. list_all (\<lambda>s. appId \<in> set s) (gameSetsByFriend friends))
       (gameSetsByFriend friends ! 0)"

definition findCommonGames :: "friend list \<Rightarrow> error + common_game list" where
  "findCommonGames friends =
     (if length friends = 0 then Inr []
      else if length friends = 1 then Inr (map plain_game (games_or_empty (friends ! 0)))
      else
        (case games (friends ! 0) of
           None \<Rightarrow> Inl TypeError
         | Some games0 \<Rightarrow>
             (case map_err (common_entry friends (new_Map (map (\<lambda>g. (appid g, g)) games0)))
                     (commonAppIds friends) of
                Inl e \<Rightarrow> Inl e
              | Inr commonGames \<Rightarrow> Inr (js_sort by_totalPlaytime_desc commonGames))))"

section \<open>findAlmostMatchedGames\<close>

text \<open>A value of the \<open>gameOwnership\<close> map: \<open>{ game, owners, missingOwners }\<close>.\<close>

record ownership =
  data_game :: game
  data_owners :: "string list"
  data_missingOwners :: "string list"

text \<open>An element of the result: \<open>{ ...data.game, owners, missingOwners, ownerCount }\<close>
  (the last field is \<open>ownerCount\<close> in the source).\<close>

record almost_matched = game +
  owners :: "string list"
  missingOwners :: "string list"
  am_ownerCount :: nat

text \<open>Lines 61 to 70, for one game of one friend.\<close>

definition record_owner ::
  "string \<Rightarrow> (int \<times> ownership) list \<Rightarrow> game \<Rightarrow> (int \<times> ownership) list" where
  "record_owner friendName gameOwnership g =
     (let m = (if \<not> map_has gameOwnership (appid g)
               then map_set gameOwnership (appid g)
                      \<lparr>data_game = g, data_owners = [], data_missingOwners = []\<rparr>
               else gameOwnership)
      in map_modify m (appid g) (\<lambda>data. data\<lparr>data_owners := data_owners data @ [friendName]\<rparr>))"

definition collect_owners :: "friend list \<Rightarrow> (int \<times> ownership) list" where
  "collect_owners friends =
     foldl (\<lambda>m friend. foldl (record_owner (friend_name friend)) m (games_or_empty friend))
       [] friends"

text \<open>Lines 74 to 80, for one entry of the map.\<close>

definition fill_missing :: "friend list \<Rightarrow> ownership \<Rightarrow> ownership" where
  "fill_missing friends data =
     foldl (\<lambda>d friend.
              if friend_name friend \<notin> set (data_owners d)
              then d\<lparr>data_missingOwners := data_missingOwners d @ [friend_name friend]\<rparr>
              else d)
       data friends"

definition almost_entry :: "ownership \<Rightarrow> almost_matched" where
  "almost_entry data =
     \<lparr>appid = appid (data_game data), name = name (data_game data),
      playtime_forever = playtime_forever (data_game data),
      owners = data_owners data, missingOwners = data_missingOwners data,
      am_ownerCount = length (data_owners data)\<rparr>"

definition by_playtime_desc :: "almost_matched \<Rightarrow> almost_matched \<Rightarrow> jsnum" where
  "by_playtime_desc a b = Num (or_zero (playtime_forever b) - or_zero (playtime_forever a))"

definition findAlmostMatchedGames :: "friend list \<Rightarrow> almost_matched list" where
  "findAlmostMatchedGames friends =
     (if length friends < 3 then []
      else
        let gameOwnership = map (\<lambda>(appId, data). (appId, fill_missing friends data))
                              (collect_owners friends);
            almostMatched =
              map (\<lambda>(appId, data). almost_entry data)
                (filter (\<lambda>(appId, data). length (data_owners data) = length friends - 1)
                   gameOwnership)
        in js_sort by_playtime_desc almostMatched)"

section \<open>Genre inference\<close>

text \<open>
  \<open>String.prototype.toLowerCase\<close> maps the letters A to Z and the Latin-1 capitals (192
  to 222 except the multiplication sign 215) to the code unit 32 above and leaves the other
  code units below 256 alone, whatever stands around them. What it does to a code unit from
  256 on is laid down in the Unicode tables of the engine (for the Greek capital sigma it
  also depends on the neighbours); these tables are no part of the repository and enter
  as a parameter: \<open>u before c after\<close> is what replaces the unit \<open>c\<close> that stands
  between \<open>before\<close> and \<open>after\<close>.
\<close>

type_synonym unicode_lowering = "js_string \<Rightarrow> nat \<Rightarrow> js_string \<Rightarrow> js_string"

definition is_capital :: "nat \<Rightarrow> bool" where
  "is_capital c = ((65 \<le> c \<and> c \<le> 90) \<or> (192 \<le> c \<and> c \<le> 222 \<and> c \<noteq> 215))"

definition lower_unit :: "nat \<Rightarrow> nat" where
  "lower_unit c = (if is_capital c then c + 32 else c)"

fun lower_from :: "unicode_lowering \<Rightarrow> js_string \<Rightarrow> js_string \<Rightarrow> js_string" where
  "lower_from u before [] = []"
| "lower_from u before (c # after) =
     (if c < 256 then [lower_unit c] else u before c after) @ lower_from u (before @ [c]) after"

definition toLowerCase :: "unicode_lowering \<Rightarrow> js_string \<Rightarrow> js_string" where
  "toLowerCase u s = lower_from u [] s"

fun starts_with :: "js_string \<Rightarrow> js_string \<Rightarrow> bool" where
  "starts_with s [] = True"
| "starts_with [] (c # w) = False"
| "starts_with (a # s) (c # w) = (a = c \<and> starts_with s w)"

text \<open>\<open>s.includes(w)\<close>: \<open>w\<close> occurs in \<open>s\<close> as a substring.\<close>

fun str_includes :: "js_string \<Rightarrow> js_string \<Rightarrow> bool" where
  "str_includes [] w = (w = [])"
| "str_includes (a # s) w = (starts_with (a # s) w \<or> str_includes s w)"

text \<open>The table \<open>keywords\<close> of lines 159 to 170, in its order.\<close>

definition genre_keywords :: "(string \<times> string list) list" where
  "genre_keywords =
     [(''Action'', [''action'', ''shooter'', ''fps'', ''combat'', ''fight'', ''battle'', ''war'']),
      (''Adventure'', [''adventure'', ''explore'', ''quest'']),
      (''RPG'', [''rpg'', ''role-playing'', ''fantasy'', ''dragon'', ''sword'']),
      (''Strategy'', [''strategy'', ''tactics'', ''rts'', ''civilization'', ''command'']),
      (''Simulation'', [''simulator'', ''simulation'', ''tycoon'', ''manager'']),
      (''Sports'', [''sports'', ''football'', ''soccer'', ''basketball'', ''racing'', ''nba'', ''fifa'']),
      (''Puzzle'', [''puzzle'', ''tetris'', ''match'']),
      (''Horror'', [''horror'', ''scary'', ''zombie'', ''dead'', ''evil'']),
      (''Multiplayer'', [''multiplayer'', ''online'', ''coop'', ''co-op'', ''versus'']),
      (''Indie'', [''indie''])]"

definition inferGenresFromName :: "js_string \<Rightarrow> string list" where
  "inferGenresFromName nm =
     map fst (filter (\<lambda>(g, words). list_ex (\<lambda>word. str_includes nm (units word)) words)
                genre_keywords)"

section \<open>analyzeSharedGenres\<close>

text \<open>The store's details of a game: \<open>details.genres\<close> is a list of objects with a
  \<open>description\<close>, or absent (\<open>details.genres || []\<close>).\<close>

record genre_entry =
  description :: string

record game_details =
  genres :: "genre_entry list option"

text \<open>A value of the \<open>genreCounts\<close> map, \<open>{ count, friends: Set }\<close>; the source's
  comment calls the set \<open>friendsWithGenre\<close>. An element of the result adds the genre.\<close>

record genre_data =
  count :: nat
  friendsWithGenre :: "string list"

record shared_genre = genre_data +
  genre :: string

text \<open>Lines 113 to 126, for one game: the genres of the details, if a details map is
  given and has the game, then the genres inferred from the lower-cased name. The
  argument \<open>u\<close>, here and in the functions that follow, stands for the engine's Unicode
  tables that \<open>toLowerCase\<close> consults.\<close>

definition game_genres_step ::
  "unicode_lowering \<Rightarrow> (int \<Rightarrow> game_details option) option \<Rightarrow> string list \<Rightarrow> game
     \<Rightarrow> string list" where
  "game_genres_step u gameDetails genresSoFar g =
     (let withDetails =
            (case gameDetails of
               None \<Rightarrow> genresSoFar
             | Some gd \<Rightarrow>
                 (case gd (appid g) of
                    None \<Rightarrow> genresSoFar
                  | Some details \<Rightarrow>
                      foldl set_add genresSoFar
                        (map description (case genres details of None \<Rightarrow> [] | Some ds \<Rightarrow> ds))));
          gameName = toLowerCase u (case name g of None \<Rightarrow> [] | Some n \<Rightarrow> n);
          basicGenres = inferGenresFromName gameName
      in foldl set_add withDetails basicGenres)"

definition friendGenres ::
  "unicode_lowering \<Rightarrow> (int \<Rightarrow> game_details option) option \<Rightarrow> friend \<Rightarrow> string list" where
  "friendGenres u gameDetails friend =
     foldl (game_genres_step u gameDetails) [] (games_or_empty friend)"

text \<open>Lines 129 to 136, for one genre of one friend.\<close>

definition count_genre ::
  "string \<Rightarrow> (string \<times> genre_data) list \<Rightarrow> string \<Rightarrow> (string \<times> genre_data) list" where
  "count_genre friendName counts g =
     (let m = (if \<not> map_has counts g
               then map_set counts g \<lparr>count = 0, friendsWithGenre = []\<rparr>
               else counts)
      in map_modify m g
           (\<lambda>data. data\<lparr>count := count data + 1,
                        friendsWithGenre := set_add (friendsWithGenre data) friendName\<rparr>))"

definition genreCounts ::
  "unicode_lowering \<Rightarrow> (int \<Rightarrow> game_details option) option \<Rightarrow> friend list
     \<Rightarrow> (string \<times> genre_data) list" where
  "genreCounts u gameDetails friends =
     foldl (\<lambda>m friend. foldl (count_genre (friend_name friend)) m (friendGenres u gameDetails friend))
       [] friends"

definition by_count_desc :: "shared_genre \<Rightarrow> shared_genre \<Rightarrow> jsnum" where
  "by_count_desc a b = Num (int (count b) - int (count a))"

definition analyzeSharedGenres ::
  "unicode_lowering \<Rightarrow> friend list \<Rightarrow> (int \<Rightarrow> game_details option) option
     \<Rightarrow> shared_genre list" where
  "analyzeSharedGenres u friends gameDetails =
     js_sort by_count_desc
       (map (\<lambda>(g, data).
               \<lparr>count = count data, friendsWithGenre = friendsWithGenre data, genre = g\<rparr>)
          (filter (\<lambda>(g, data). length (friendsWithGenre data) = length friends)
             (genreCounts u gameDetails friends)))"

section \<open>The recommendation request and response of the application\<close>

text \<open>The application keeps the results of the last match for the AI request
  (\<open>this.lastCommonGames\<close>, \<open>this.lastSharedGenres\<close>, both \<open>[]\<close> at construction).\<close>

record app =
  lastCommonGames :: "common_game list"
  lastSharedGenres :: "shared_genre list"

definition new_app :: app where
  "new_app = \<lparr>lastCommonGames = [], lastSharedGenres = []\<rparr>"

text \<open>\<open>handleFindMatches\<close>, as far as the state goes; \<open>friends\<close> is the result of
  \<open>getSelectedFriends()\<close>. With fewer than two friends it alerts and returns. An
  exception of the matcher is caught after nothing has been stored.\<close>

definition handleFindMatches :: "unicode_lowering \<Rightarrow> friend list \<Rightarrow> app \<Rightarrow> app" where
  "handleFindMatches u friends a =
     (if length friends < 2 then a
      else
        (case findCommonGames friends of
           Inl e \<Rightarrow> a
         | Inr commonGames \<Rightarrow>
             a\<lparr>lastCommonGames := commonGames,
               lastSharedGenres := analyzeSharedGenres u friends None\<rparr>))"

text \<open>The body of the POST request. A game name that is absent is \<open>undefined\<close> in the
  array (\<open>null\<close> once serialised).\<close>

record recommendation_request =
  common_games :: "js_string option list"
  shared_genres :: "string list"
  friend_names :: "string list"

text \<open>Lines 311 to 341 of \<open>handleGetAIRecommendations\<close>: no request with fewer than
  two selected friends, otherwise the request built from the stored results.\<close>

definition recommendation_request_of :: "friend list \<Rightarrow> app \<Rightarrow> recommendation_request option" where
  "recommendation_request_of friends a =
     (if length friends < 2 then None
      else Some \<lparr>common_games = map result_name (take 10 (lastCommonGames a)),
                 shared_genres = map genre (take 5 (lastSharedGenres a)),
                 friend_names = map friend_name friends\<rparr>)"

text \<open>An entry of \<open>recommendations\<close> in the service's reply and the record shown to the
  user. The field values are copied as they are, whatever they are: \<open>'v\<close> is the type of
  JavaScript values.\<close>

record 'v raw_recommendation =
  raw_name :: 'v
  raw_price :: 'v
  raw_overview :: 'v
  raw_reason :: 'v
  player_count :: 'v
  raw_tags :: 'v

record 'v recommendation =
  rec_name :: 'v
  rec_price :: 'v
  rec_overview :: 'v
  rec_reason :: 'v
  playerCount :: 'v
  rec_tags :: 'v

text \<open>The HTTP response: \<open>response.ok\<close>, \<open>response.status\<close> and the JSON body
  \<open>{ success, recommendations, error }\<close>.\<close>

record 'v ai_data =
  success :: bool
  recommendations :: "'v raw_recommendation list option"
  error_message :: "string option"

record 'v ai_response =
  ok :: bool
  status :: nat
  json :: "'v ai_data"

datatype request_error = BackendError nat | ServiceError string | NotAnArray

definition transform_recommendation :: "'v raw_recommendation \<Rightarrow> 'v recommendation" where
  "transform_recommendation r =
     \<lparr>rec_name = raw_name r, rec_price = raw_price r, rec_overview = raw_overview r,
      rec_reason = raw_reason r, playerCount = player_count r, rec_tags = raw_tags r\<rparr>"

text \<open>Lines 343 to 361 of \<open>handleGetAIRecommendations\<close>: \<open>Backend error: status\<close> if
  the response is not ok, the service's message (\<open>data.error || 'Unknown error'\<close>) if
  \<open>success\<close> is false, a TypeError from \<open>.map\<close> if \<open>recommendations\<close> is absent,
  otherwise the transformed entries.\<close>

definition normalize_response :: "'v ai_response \<Rightarrow> request_error + 'v recommendation list" where
  "normalize_response response =
     (if \<not> ok response then Inl (BackendError (status response))
      else if \<not> success (json response)
      then Inl (ServiceError
                  (case error_message (json response) of
                     None \<Rightarrow> ''Unknown error''
                   | Some m \<Rightarrow> if m = [] then ''Unknown error'' else m))
      else
        (case recommendations (json response) of
           None \<Rightarrow> Inl NotAnArray
         | Some recs \<Rightarrow> Inr (map transform_recommendation recs)))"

section \<open>Notions used in the statements and proofs\<close>

text \<open>What one friend adds to the total playtime of an appId: the playtime of the first
  game of the library with that appId, \<open>0\<close> if there is none.\<close>

definition contribution :: "int \<Rightarrow> friend \<Rightarrow> jsnum" where
  "contribution a f =
     (case find (\<lambda>g. appid g = a) (games_or_empty f) of
        Some g \<Rightarrow> to_number (playtime_forever g)
      | None \<Rightarrow> Num 0)"

text \<open>The element that lines 30 to 43 build for a common appId when nothing throws.\<close>

definition entry_of :: "friend list \<Rightarrow> (int \<times> game) list \<Rightarrow> int \<Rightarrow> common_game" where
  "entry_of friends gm a =
     \<lparr>game_spread = map_get gm a,
      totalPlaytime = Some (foldl js_add (Num 0) (map (contribution a) friends)),
      averagePlaytime =
        Some (math_round_div (foldl js_add (Num 0) (map (contribution a) friends))
                (length friends)),
      ownerCount = Some (length friends)\<rparr>"

text \<open>The scenario of the specification: A owns Portal 2 and Half-Life, B owns Half-Life
  and Left 4 Dead, C owns Portal 2 and Half-Life.\<close>

definition portal2 :: game where
  "portal2 = \<lparr>appid = 1, name = Some (units ''Portal 2''), playtime_forever = Some 90\<rparr>"

definition half_life :: game where
  "half_life = \<lparr>appid = 2, name = Some (units ''Half-Life''), playtime_forever = Some 30\<rparr>"

definition left4dead :: game where
  "left4dead = \<lparr>appid = 3, name = Some (units ''Left 4 Dead''), playtime_forever = Some 45\<rparr>"

definition friend_A :: friend where
  "friend_A = \<lparr>steamId = ''76561198000000001'', friend_name = ''A'',
               games = Some [portal2, half_life]\<rparr>"

definition friend_B :: friend where
  "friend_B = \<lparr>steamId = ''76561198000000002'', friend_name = ''B'',
               games = Some [half_life, left4dead]\<rparr>"

definition friend_C :: friend where
  "friend_C = \<lparr>steamId = ''76561198000000003'', friend_name = ''C'',
               games = Some [portal2, half_life]\<rparr>"

text \<open>The position at which a value first occurs in a list, and the appIds of a friend
  list in the order in which a pass over the friends and their libraries meets them.\<close>

definition first_index :: "'a \<Rightarrow> 'a list \<Rightarrow> nat" where
  "first_index x xs = length (takeWhile (\<lambda>y. y \<noteq> x) xs)"

definition encounter_order :: "friend list \<Rightarrow> int list" where
  "encounter_order friends = concat (map (\<lambda>f. map appid (games_or_empty f)) friends)"

text \<open>Every game of every library carries a playtime, as in the data model.\<close>

definition playtimes_present :: "friend list \<Rightarrow> bool" where
  "playtimes_present friends =
     list_all (\<lambda>f. list_all (\<lambda>g. playtime_forever g \<noteq> None) (games_or_empty f)) friends"

text \<open>The playtime, as an integer, that a friend has on an appId: that of the first game
  of the library with the appId, \<open>0\<close> if the friend does not own it.\<close>

definition playtime_in :: "int \<Rightarrow> friend \<Rightarrow> int" where
  "playtime_in a f =
     (case find (\<lambda>g. appid g = a) (games_or_empty f) of
        Some g \<Rightarrow> or_zero (playtime_forever g)
      | None \<Rightarrow> 0)"

definition total_int :: "common_game \<Rightarrow> int" where
  "total_int r = (case totalPlaytime r of Some (Num t) \<Rightarrow> t | _ \<Rightarrow> 0)"

definition seen_before :: "friend list \<Rightarrow> common_game \<Rightarrow> common_game \<Rightarrow> bool" where
  "seen_before friends r1 r2 =
     (case (result_appid r1, result_appid r2) of
        (Some a1, Some a2) \<Rightarrow>
          first_index a1 (encounter_order friends) < first_index a2 (encounter_order friends)
      | _ \<Rightarrow> False)"

text \<open>The order of the output of \<open>findCommonGames\<close>: \<open>r1\<close> may stand before \<open>r2\<close>
  if both totals are numbers and either the total of \<open>r1\<close> is larger, or the totals are
  equal and the appId of \<open>r1\<close> is met first in the input.\<close>

definition in_output_order :: "friend list \<Rightarrow> common_game \<Rightarrow> common_game \<Rightarrow> bool" where
  "in_output_order friends r1 r2 =
     (case (totalPlaytime r1, totalPlaytime r2, result_appid r1, result_appid r2) of
        (Some (Num t1), Some (Num t2), Some a1, Some a2) \<Rightarrow>
          t2 < t1 \<or> (t1 = t2 \<and>
            first_index a1 (encounter_order friends) < first_index a2 (encounter_order friends))
      | _ \<Rightarrow> False)"

text \<open>Two friends with three common games, two of them with the same total playtime.\<close>

definition friend_T1 :: friend where
  "friend_T1 = \<lparr>steamId = ''76561198000000011'', friend_name = ''T1'',
     games = Some [\<lparr>appid = 10, name = Some (units ''Dota 2''), playtime_forever = Some 5\<rparr>,
                   \<lparr>appid = 11, name = Some (units ''Rust''), playtime_forever = Some 20\<rparr>,
                   \<lparr>appid = 12, name = Some (units ''Terraria''), playtime_forever = Some 5\<rparr>]\<rparr>"

definition friend_T2 :: friend where
  "friend_T2 = \<lparr>steamId = ''76561198000000012'', friend_name = ''T2'',
     games = Some [\<lparr>appid = 12, name = Some (units ''Terraria''), playtime_forever = Some 5\<rparr>,
                   \<lparr>appid = 10, name = Some (units ''Dota 2''), playtime_forever = Some 5\<rparr>,
                   \<lparr>appid = 11, name = Some (units ''Rust''), playtime_forever = Some 1\<rparr>]\<rparr>"

text \<open>The owners that lines 60 to 71 record for an appId: the name of a friend once for
  every game of the library with that appId.\<close>

definition owners_of :: "(int \<times> ownership) list \<Rightarrow> int \<Rightarrow> string list" where
  "owners_of m k = (case map_of m k of Some d \<Rightarrow> data_owners d | None \<Rightarrow> [])"

definition owner_names :: "friend list \<Rightarrow> int \<Rightarrow> string list" where
  "owner_names friends k =
     concat (map (\<lambda>f. map (\<lambda>g. friend_name f) (filter (\<lambda>g. appid g = k) (games_or_empty f)))
               friends)"

definition owns :: "int \<Rightarrow> friend \<Rightarrow> bool" where
  "owns k f = (k \<in> appid ` set (games_or_empty f))"

text \<open>No library holds an appId twice.\<close>

definition distinct_libraries :: "friend list \<Rightarrow> bool" where
  "distinct_libraries friends = list_all (\<lambda>f. distinct (map appid (games_or_empty f))) friends"

definition no_missing :: "(int \<times> ownership) list \<Rightarrow> bool" where
  "no_missing m = (\<forall>k d. map_of m k = Some d \<longrightarrow> data_missingOwners d = [])"

text \<open>Two different accounts with the same display name.\<close>

definition friend_S1 :: friend where
  "friend_S1 = \<lparr>steamId = ''76561198000000021'', friend_name = ''Sam'',
                games = Some [portal2]\<rparr>"

definition friend_S2 :: friend where
  "friend_S2 = \<lparr>steamId = ''76561198000000022'', friend_name = ''Sam'',
                games = Some [left4dead]\<rparr>"



text \<open>Two friends who own the same game, one of them with a negative playtime.\<close>

definition half_life_5 :: game where
  "half_life_5 = \<lparr>appid = 2, name = Some (units ''Half-Life''), playtime_forever = Some 5\<rparr>"

definition friend_N1 :: friend where
  "friend_N1 = \<lparr>steamId = ''76561198000000031'', friend_name = ''N1'',
                games = Some [half_life_5]\<rparr>"


text \<open>Readings of the \<open>genreCounts\<close> map, and "the friend has a game with the genre".\<close>

definition count_of :: "(string \<times> genre_data) list \<Rightarrow> string \<Rightarrow> nat" where
  "count_of m g = (case map_of m g of Some d \<Rightarrow> count d | None \<Rightarrow> 0)"

definition names_of :: "(string \<times> genre_data) list \<Rightarrow> string \<Rightarrow> string list" where
  "names_of m g = (case map_of m g of Some d \<Rightarrow> friendsWithGenre d | None \<Rightarrow> [])"

definition has_genre ::
  "unicode_lowering \<Rightarrow> (int \<Rightarrow> game_details option) option \<Rightarrow> string \<Rightarrow> friend \<Rightarrow> bool" where
  "has_genre u gameDetails g f = (g \<in> set (friendGenres u gameDetails f))"

text \<open>The count that claim C1 describes: the games, across the union of the libraries,
  that are tagged with the genre (a game being its appId).\<close>

definition games_tagged ::
  "unicode_lowering \<Rightarrow> (int \<Rightarrow> game_details option) option \<Rightarrow> friend list \<Rightarrow> string
     \<Rightarrow> int list" where
  "games_tagged u gameDetails friends g =
     new_Set (map appid
       (filter (\<lambda>x. g \<in> set (game_genres_step u gameDetails [] x))
          (concat (map games_or_empty friends))))"

text \<open>An engine table that leaves every code unit from 256 on as it is. On a name below
  256 no table is consulted, so that it serves for the examples.\<close>

definition keep_units :: unicode_lowering where
  "keep_units before c after = [c]"








text \<open>Two friends with role-playing games: three in the union of the libraries, one in
  common.\<close>

definition friend_G1 :: friend where
  "friend_G1 = \<lparr>steamId = ''76561198000000041'', friend_name = ''G1'',
     games = Some [\<lparr>appid = 7, name = Some (units ''Dragon Age''), playtime_forever = Some 300\<rparr>,
                   \<lparr>appid = 8, name = Some (units ''Dragon Quest''), playtime_forever = Some 20\<rparr>,
                   \<lparr>appid = 9, name = Some (units ''Broken Sword''), playtime_forever = Some 0\<rparr>]\<rparr>"

definition friend_G2 :: friend where
  "friend_G2 = \<lparr>steamId = ''76561198000000042'', friend_name = ''G2'',
     games = Some [\<lparr>appid = 7, name = Some (units ''Dragon Age''), playtime_forever = Some 12\<rparr>]\<rparr>"

text \<open>Two friends with the same twelve games, more than a request takes.\<close>

definition big_library :: "game list" where
  "big_library =
     map (\<lambda>i. \<lparr>appid = i, name = Some (units ''Game '' @ [64 + nat i]),
                playtime_forever = Some (100 - i)\<rparr>) [1..12]"

definition friend_L1 :: friend where
  "friend_L1 = \<lparr>steamId = ''76561198000000051'', friend_name = ''L1'',
                games = Some big_library\<rparr>"

definition friend_L2 :: friend where
  "friend_L2 = \<lparr>steamId = ''76561198000000052'', friend_name = ''L2'',
                games = Some big_library\<rparr>"

definition big_common :: "common_game list" where
  "big_common =
     map (\<lambda>g. \<lparr>game_spread = Some g,
                totalPlaytime = Some (Num (2 * or_zero (playtime_forever g))),
                averagePlaytime = Some (Num (or_zero (playtime_forever g))),
                ownerCount = Some 2\<rparr>) big_library"

definition big_request :: recommendation_request where
  "big_request =
     \<lparr>common_games = map (\<lambda>c. Some (units ''Game '' @ [c])) [65 ..< 75],
      shared_genres = [], friend_names = [''L1'', ''L2'']\<rparr>"

text \<open>JavaScript values for an example reply of the service.\<close>

datatype js_value = JString string | JArray "string list" | JUndefined

definition example_recommendations :: "js_value raw_recommendation list" where
  "example_recommendations =
     [\<lparr>raw_name = JString ''Deep Rock Galactic'', raw_price = JString ''$29.99'',
       raw_overview = JString ''Co-op mining shooter'', raw_reason = JString ''You all play co-op'',
       player_count = JString ''1-4'', raw_tags = JArray [''Co-op'', ''FPS'']\<rparr>,
      \<lparr>raw_name = JString ''Valheim'', raw_price = JString ''$19.99'',
       raw_overview = JString ''Viking survival'', raw_reason = JString ''Shared interest in RPG'',
       player_count = JUndefined, raw_tags = JArray []\<rparr>]"

definition example_response :: "js_value ai_response" where
  "example_response =
     \<lparr>ok = True, status = 200,
      json = \<lparr>success = True, recommendations = Some example_recommendations,
              error_message = None\<rparr>\<rparr>"

text \<open>A library that lists Portal 2 twice, and a friend whose copy of Half-Life has no
  playtime.\<close>

definition friend_A2 :: friend where
  "friend_A2 = \<lparr>steamId = ''76561198000000004'', friend_name = ''A'',
                games = Some [portal2, portal2]\<rparr>"

definition friend_M :: friend where
  "friend_M = \<lparr>steamId = ''76561198000000033'', friend_name = ''M'',
               games = Some [\<lparr>appid = 2, name = Some (units ''Half-Life''),
                              playtime_forever = None\<rparr>]\<rparr>"

section \<open>Sets, maps and the sort\<close>

lemma set_foldl_set_add: "set (foldl set_add s xs) = set s \<union> set xs"
  by (induction xs arbitrary: s) (auto simp: set_add_def)

lemma distinct_foldl_set_add: "distinct s \<Longrightarrow> distinct (foldl set_add s xs)"
  by (induction xs arbitrary: s) (auto simp: set_add_def)

lemma set_new_Set: "set (new_Set xs) = set xs"
  by (simp add: new_Set_def set_foldl_set_add)

lemma distinct_new_Set: "distinct (new_Set xs)"
  by (simp add: new_Set_def distinct_foldl_set_add)

lemma map_of_map_set: "map_of (map_set m k v) = (map_of m)(k \<mapsto> v)"
  by (induction m) (auto simp: fun_eq_iff)

lemma map_of_foldl_map_set:
  "map_of (foldl (\<lambda>m kv. map_set m (fst kv) (snd kv)) m kvs) = map_of m ++ map_of (rev kvs)"
  by (induction kvs arbitrary: m)
     (auto simp: map_of_map_set fun_eq_iff map_add_def split: option.splits)

lemma map_get_new_Map: "map_get (new_Map kvs) k = map_of (rev kvs) k"
  by (simp add: map_get_def new_Map_def map_of_foldl_map_set)

lemma set_js_insert: "set (js_insert cmp x ys) = insert x (set ys)"
  by (induction ys) auto

lemma set_js_sort: "set (js_sort cmp xs) = set xs"
  by (induction xs) (auto simp: set_js_insert)

lemma length_js_insert: "length (js_insert cmp x ys) = Suc (length ys)"
  by (induction ys) auto

lemma length_js_sort: "length (js_sort cmp xs) = length xs"
  by (induction xs) (auto simp: length_js_insert)

section \<open>Properties of findCommonGames\<close>

lemma gameMap_get:
  assumes "a \<in> appid ` set gs"
  shows "\<exists>g \<in> set gs. appid g = a \<and>
           map_get (new_Map (map (\<lambda>g. (appid g, g)) gs)) a = Some g"
proof -
  let ?kvs = "rev (map (\<lambda>g. (appid g, g)) gs)"
  from assms have "a \<in> fst ` set ?kvs" by force
  then obtain g where g: "map_of ?kvs a = Some g"
    by (metis map_of_eq_None_iff not_Some_eq)
  then have "(a, g) \<in> set ?kvs" by (rule map_of_SomeD)
  then have "g \<in> set gs" "appid g = a" by auto
  with g show ?thesis by (auto simp: map_get_new_Map)
qed

lemma foldl_totalPlaytime_step:
  "\<forall>f \<in> set fs. games f \<noteq> None \<Longrightarrow>
   foldl (totalPlaytime_step a) (Inr s) fs = Inr (foldl js_add s (map (contribution a) fs))"
  by (induction fs arbitrary: s)
     (auto simp: contribution_def games_or_empty_def split: option.splits)

lemma totalPlaytime_of_present:
  "\<forall>f \<in> set fs. games f \<noteq> None \<Longrightarrow>
   totalPlaytime_of fs a = Inr (foldl js_add (Num 0) (map (contribution a) fs))"
  by (simp add: totalPlaytime_of_def foldl_totalPlaytime_step)

lemma map_err_Inr:
  "\<forall>x \<in> set xs. f x = Inr (g x) \<Longrightarrow> map_err f xs = Inr (map g xs)"
  by (induction xs) auto

lemma set_commonAppIds:
  "friends \<noteq> [] \<Longrightarrow>
   set (commonAppIds friends) = (\<Inter>f \<in> set friends. appid ` set (games_or_empty f))"
  by (cases friends) (auto simp: commonAppIds_def gameSetsByFriend_def set_new_Set list_all_iff)

lemma commonAppIds_games_present:
  assumes "a \<in> set (commonAppIds friends)" "friends \<noteq> []" "f \<in> set friends"
  shows "games f \<noteq> None"
proof -
  from assms have "a \<in> appid ` set (games_or_empty f)"
    by (simp add: set_commonAppIds)
  then show ?thesis by (cases "games f") (auto simp: games_or_empty_def)
qed

lemma common_entry_ok:
  assumes "a \<in> set (commonAppIds friends)" "friends \<noteq> []"
  shows "common_entry friends gm a = Inr (entry_of friends gm a)"
proof -
  have "\<forall>f \<in> set friends. games f \<noteq> None"
    using assms commonAppIds_games_present by blast
  then show ?thesis
    by (simp add: common_entry_def entry_of_def totalPlaytime_of_present)
qed

text \<open>With two or more friends and the first friend's library present, nothing throws:
  the result is the sorted list of the entries of the common appIds.\<close>

lemma findCommonGames_many:
  assumes "2 \<le> length friends" "games (friends ! 0) = Some games0"
  shows "findCommonGames friends =
     Inr (js_sort by_totalPlaytime_desc
           (map (entry_of friends (new_Map (map (\<lambda>g. (appid g, g)) games0)))
              (commonAppIds friends)))"
proof -
  from assms have ne: "friends \<noteq> []" by auto
  have "map_err (common_entry friends gm) (commonAppIds friends) =
        Inr (map (entry_of friends gm) (commonAppIds friends))" for gm
    by (rule map_err_Inr) (simp add: common_entry_ok [OF _ ne])
  moreover from assms have "length friends \<noteq> 0" "length friends \<noteq> 1" by auto
  ultimately show ?thesis using assms(2) by (simp add: findCommonGames_def)
qed

lemma result_appid_entry_of:
  assumes "a \<in> appid ` set gs"
  shows "result_appid (entry_of friends (new_Map (map (\<lambda>g. (appid g, g)) gs)) a) = Some a"
  using gameMap_get [OF assms] by (auto simp: result_appid_def entry_of_def)

text \<open>
  Claim C2, as stated: for a friend list of length 1 the result is the friend's library with
  each game wrapped so that \<open>ownerCount = 1\<close> and the total and average playtime equal
  the game's playtime. It fails: the one-friend branch returns the game objects as they
  are, without the three properties.
\<close>

theorem findCommonGames_single_counterexample:
  "findCommonGames [friend_A] = Inr [plain_game portal2, plain_game half_life]
   \<and> ownerCount (plain_game portal2) \<noteq> Some 1
   \<and> totalPlaytime (plain_game portal2) \<noteq> Some (Num 90)
   \<and> averagePlaytime (plain_game portal2) \<noteq> Some (Num 90)"
  by (simp add: findCommonGames_def friend_A_def games_or_empty_def plain_game_def)

text \<open>
  Claim C2, amended: for a friend list of length 1 \<open>findCommonGames\<close> returns that friend's
  library as it is, in order (the empty sequence if the library is absent), the elements
  carrying no \<open>ownerCount\<close>, \<open>totalPlaytime\<close> or \<open>averagePlaytime\<close>; for the empty
  friend list it returns the empty sequence.
\<close>

theorem findCommonGames_at_most_one:
  "findCommonGames [] = Inr []
   \<and> findCommonGames [f] = Inr (map plain_game (games_or_empty f))
   \<and> map game_spread (map plain_game (games_or_empty f)) = map Some (games_or_empty f)
   \<and> map ownerCount (map plain_game (games_or_empty f)) = map (\<lambda>g. None) (games_or_empty f)
   \<and> map totalPlaytime (map plain_game (games_or_empty f)) = map (\<lambda>g. None) (games_or_empty f)
   \<and> map averagePlaytime (map plain_game (games_or_empty f)) = map (\<lambda>g. None) (games_or_empty f)"
  by (simp add: findCommonGames_def plain_game_def)

text \<open>
  Claim C3: for every nonempty friend list (the first friend's library being present, as
  in the data model), \<open>findCommonGames\<close> returns, and the set of appIds of its output is
  the intersection of the friends' sets of owned appIds.
\<close>

theorem findCommonGames_appids:
  assumes "friends \<noteq> []" "games (friends ! 0) \<noteq> None"
  shows "\<exists>out. findCommonGames friends = Inr out \<and>
     result_appid ` set out = Some ` (\<Inter>f \<in> set friends. appid ` set (games_or_empty f))"
proof (cases "length friends = 1")
  case True
  then obtain f where f: "friends = [f]" by (cases friends) auto
  show ?thesis
    by (auto simp: f findCommonGames_def result_appid_def plain_game_def image_iff)
next
  case False
  with assms(1) have len: "2 \<le> length friends" by (cases friends) (auto simp: Suc_le_eq)
  from assms obtain games0 where g0: "games (friends ! 0) = Some games0" by auto
  let ?gm = "new_Map (map (\<lambda>g. (appid g, g)) games0)"
  have sub: "set (commonAppIds friends) \<subseteq> appid ` set games0"
    using assms(1) g0 by (cases friends) (auto simp: set_commonAppIds games_or_empty_def)
  have "result_appid ` set (map (entry_of friends ?gm) (commonAppIds friends)) =
        Some ` set (commonAppIds friends)"
  proof -
    have "\<forall>a \<in> set (commonAppIds friends). result_appid (entry_of friends ?gm a) = Some a"
      using sub result_appid_entry_of by blast
    then show ?thesis by (simp add: image_image)
  qed
  then show ?thesis
    by (simp add: findCommonGames_many [OF len g0] set_js_sort set_commonAppIds [OF assms(1)])
qed

theorem findCommonGames_appids_witness:
  "[friend_A, friend_B, friend_C] \<noteq> [] \<and> games ([friend_A, friend_B, friend_C] ! 0) \<noteq> None
   \<and> (\<exists>out. findCommonGames [friend_A, friend_B, friend_C] = Inr out \<and>
         result_appid ` set out =
         Some ` (\<Inter>f \<in> set [friend_A, friend_B, friend_C]. appid ` set (games_or_empty f)))"
proof -
  have ne: "[friend_A, friend_B, friend_C] \<noteq> []" by simp
  have present: "games ([friend_A, friend_B, friend_C] ! 0) \<noteq> None"
    by (simp add: friend_A_def)
  show ?thesis
    using ne present findCommonGames_appids [OF ne present] by blast
qed

section \<open>The order of the output of findCommonGames\<close>

lemma first_index_append_in: "a \<in> set xs \<Longrightarrow> first_index a (xs @ ys) = first_index a xs"
  by (induction xs) (auto simp: first_index_def)

lemma first_index_append_notin:
  "a \<notin> set xs \<Longrightarrow> first_index a (xs @ ys) = length xs + first_index a ys"
  by (induction xs) (auto simp: first_index_def)

lemma first_index_less: "a \<in> set xs \<Longrightarrow> first_index a xs < length xs"
  by (induction xs) (auto simp: first_index_def)

lemma foldl_set_add_first_index:
  "set s = set pre \<Longrightarrow>
   sorted_wrt (\<lambda>a b. first_index a pre < first_index b pre) s \<Longrightarrow>
   sorted_wrt (\<lambda>a b. first_index a (pre @ rest) < first_index b (pre @ rest))
     (foldl set_add s rest)"
proof (induction rest arbitrary: s pre)
  case Nil
  then show ?case by simp
next
  case (Cons x rest)
  let ?pre = "pre @ [x]"
  have keep: "sorted_wrt (\<lambda>a b. first_index a ?pre < first_index b ?pre) s"
  proof (rule sorted_wrt_mono_rel [OF _ Cons.prems(2)])
    fix a b assume "a \<in> set s" "b \<in> set s" "first_index a pre < first_index b pre"
    then show "first_index a ?pre < first_index b ?pre"
      using Cons.prems(1) by (simp add: first_index_append_in)
  qed
  have "sorted_wrt (\<lambda>a b. first_index a ?pre < first_index b ?pre) (set_add s x)"
  proof (cases "x \<in> set s")
    case True
    with keep show ?thesis by (simp add: set_add_def)
  next
    case False
    with Cons.prems(1) have "x \<notin> set pre" by simp
    then have "first_index x ?pre = length pre"
      using first_index_append_notin [of x pre "[x]"] by (simp add: first_index_def)
    moreover have "\<forall>a \<in> set s. first_index a ?pre < length pre"
      using Cons.prems(1) by (simp add: first_index_append_in first_index_less)
    ultimately show ?thesis using keep False
      by (simp add: set_add_def sorted_wrt_append)
  qed
  moreover have "set (set_add s x) = set ?pre"
    using Cons.prems(1) by (auto simp: set_add_def)
  ultimately have "sorted_wrt (\<lambda>a b. first_index a (?pre @ rest) < first_index b (?pre @ rest))
     (foldl set_add (set_add s x) rest)"
    by (rule Cons.IH [rotated])
  then show ?case by simp
qed

lemma new_Set_first_index:
  "sorted_wrt (\<lambda>a b. first_index a xs < first_index b xs) (new_Set xs)"
  using foldl_set_add_first_index [of "[]" "[]" xs] by (simp add: new_Set_def)

lemma sorted_wrt_js_insert:
  assumes "\<forall>y \<in> set ys. cmp x y = Num (k y - k x)"
    and "\<forall>y \<in> set ys. R x y"
    and "sorted_wrt (\<lambda>a b. k b < k a \<or> (k a = k b \<and> R a b)) ys"
  shows "sorted_wrt (\<lambda>a b. k b < k a \<or> (k a = k b \<and> R a b)) (js_insert cmp x ys)"
  using assms
proof (induction ys)
  case Nil
  then show ?case by simp
next
  case (Cons y ys)
  show ?case
  proof (cases "k y \<le> k x")
    case True
    have "\<forall>z \<in> set ys. k z \<le> k y" using Cons.prems(3) by auto
    with True Cons.prems show ?thesis by force
  next
    case False
    with Cons show ?thesis by (auto simp: set_js_insert)
  qed
qed

lemma sorted_wrt_js_sort:
  assumes "\<forall>a \<in> set xs. \<forall>b \<in> set xs. cmp a b = Num (k b - k a)"
    and "sorted_wrt R xs"
  shows "sorted_wrt (\<lambda>a b. k b < k a \<or> (k a = k b \<and> R a b)) (js_sort cmp xs)"
  using assms
proof (induction xs)
  case Nil
  then show ?case by simp
next
  case (Cons x xs)
  then show ?case
    by (auto intro!: sorted_wrt_js_insert simp: set_js_sort)
qed

lemma contribution_present:
  assumes "playtimes_present friends" "f \<in> set friends"
  shows "contribution a f = Num (playtime_in a f)"
proof (cases "find (\<lambda>g. appid g = a) (games_or_empty f)")
  case None
  then show ?thesis by (simp add: contribution_def playtime_in_def)
next
  case (Some g)
  then have "g \<in> set (games_or_empty f)"
    by (auto simp: find_Some_iff)
  with assms have "playtime_forever g \<noteq> None"
    by (auto simp: playtimes_present_def list_all_iff)
  with Some show ?thesis by (auto simp: contribution_def playtime_in_def)
qed

lemma foldl_js_add_Num:
  "\<forall>f \<in> set fs. c f = Num (p f) \<Longrightarrow>
   foldl js_add (Num s) (map c fs) = Num (s + sum_list (map p fs))"
  by (induction fs arbitrary: s) (auto simp: algebra_simps)

lemma totalPlaytime_entry_of:
  assumes "playtimes_present friends"
  shows "totalPlaytime (entry_of friends gm a) = Some (Num (sum_list (map (playtime_in a) friends)))"
  using foldl_js_add_Num [of friends "contribution a" "playtime_in a" 0]
    contribution_present [OF assms]
  by (simp add: entry_of_def)


lemma commonAppIds_encounter_order:
  assumes "friends \<noteq> []"
  shows "sorted_wrt (\<lambda>a b. first_index a (encounter_order friends)
                         < first_index b (encounter_order friends)) (commonAppIds friends)"
proof -
  from assms obtain f fs where fs: "friends = f # fs" by (cases friends) auto
  let ?xs = "map appid (games_or_empty f)"
  have eo: "encounter_order friends = ?xs @ encounter_order fs"
    by (simp add: fs encounter_order_def)
  have "sorted_wrt (\<lambda>a b. first_index a (encounter_order friends)
                         < first_index b (encounter_order friends)) (new_Set ?xs)"
  proof (rule sorted_wrt_mono_rel [OF _ new_Set_first_index])
    fix a b assume "a \<in> set (new_Set ?xs)" "b \<in> set (new_Set ?xs)"
      "first_index a ?xs < first_index b ?xs"
    then show "first_index a (encounter_order friends) < first_index b (encounter_order friends)"
      by (simp add: eo set_new_Set first_index_append_in)
  qed
  then show ?thesis
    by (simp add: commonAppIds_def gameSetsByFriend_def fs sorted_wrt_filter)
qed

lemma findCommonGames_in_output_order:
  assumes "2 \<le> length friends" "games (friends ! 0) = Some games0" "playtimes_present friends"
  shows "sorted_wrt (in_output_order friends)
     (js_sort by_totalPlaytime_desc
        (map (entry_of friends (new_Map (map (\<lambda>g. (appid g, g)) games0)))
           (commonAppIds friends)))"
proof -
  from assms(1) have ne: "friends \<noteq> []" by auto
  let ?gm = "new_Map (map (\<lambda>g. (appid g, g)) games0)"
  let ?unsorted = "map (entry_of friends ?gm) (commonAppIds friends)"
  have sub: "set (commonAppIds friends) \<subseteq> appid ` set games0"
    using ne assms(2) by (cases friends) (auto simp: set_commonAppIds games_or_empty_def)
  have appid: "result_appid (entry_of friends ?gm a) = Some a" if "a \<in> set (commonAppIds friends)" for a
    using that sub result_appid_entry_of by blast
  have tot: "totalPlaytime r = Some (Num (total_int r))" if "r \<in> set ?unsorted" for r
  proof -
    from that obtain a where "r = entry_of friends ?gm a" by auto
    then show ?thesis by (simp add: total_int_def totalPlaytime_entry_of [OF assms(3)])
  qed
  have has_id: "\<exists>a. result_appid r = Some a" if "r \<in> set ?unsorted" for r
  proof -
    from that obtain a where "a \<in> set (commonAppIds friends)" "r = entry_of friends ?gm a"
      by auto
    then show ?thesis using appid by blast
  qed
  have cmp: "\<forall>r1 \<in> set ?unsorted. \<forall>r2 \<in> set ?unsorted.
               by_totalPlaytime_desc r1 r2 = Num (total_int r2 - total_int r1)"
  proof (intro ballI)
    fix r1 r2 assume r: "r1 \<in> set ?unsorted" "r2 \<in> set ?unsorted"
    from tot [OF r(1)] tot [OF r(2)] show "by_totalPlaytime_desc r1 r2 = Num (total_int r2 - total_int r1)"
      by (simp add: by_totalPlaytime_desc_def)
  qed
  have "sorted_wrt (seen_before friends) ?unsorted"
    unfolding sorted_wrt_map
    by (rule sorted_wrt_mono_rel [OF _ commonAppIds_encounter_order [OF ne]])
       (simp add: seen_before_def appid)
  with cmp have "sorted_wrt (\<lambda>r1 r2. total_int r2 < total_int r1 \<or>
        (total_int r1 = total_int r2 \<and> seen_before friends r1 r2))
      (js_sort by_totalPlaytime_desc ?unsorted)"
    by (rule sorted_wrt_js_sort)
  then show ?thesis
  proof (rule sorted_wrt_mono_rel [rotated])
    fix r1 r2
    assume "r1 \<in> set (js_sort by_totalPlaytime_desc ?unsorted)"
      and "r2 \<in> set (js_sort by_totalPlaytime_desc ?unsorted)"
      and L: "total_int r2 < total_int r1 \<or>
        (total_int r1 = total_int r2 \<and> seen_before friends r1 r2)"
    then have r: "r1 \<in> set ?unsorted" "r2 \<in> set ?unsorted"
      unfolding set_js_sort by blast+
    from has_id [OF r(1)] obtain a1 where "result_appid r1 = Some a1" ..
    moreover from has_id [OF r(2)] obtain a2 where "result_appid r2 = Some a2" ..
    moreover note tot [OF r(1)] tot [OF r(2)]
    ultimately show "in_output_order friends r1 r2"
      using L by (simp add: in_output_order_def seen_before_def)
  qed
qed


text \<open>
  Claim C6: with at least two friends (libraries and playtimes present, as in the data
  model), \<open>findCommonGames\<close> returns a sequence in which the total playtime never
  increases and in which, of two results with the same total, the one whose appId is met
  first in the input comes first.
\<close>

theorem findCommonGames_order:
  assumes "2 \<le> length friends" "games (friends ! 0) \<noteq> None" "playtimes_present friends"
  shows "\<exists>out. findCommonGames friends = Inr out \<and> sorted_wrt (in_output_order friends) out"
proof -
  from assms(2) obtain games0 where g0: "games (friends ! 0) = Some games0" by auto
  show ?thesis
    using findCommonGames_many [OF assms(1) g0]
      findCommonGames_in_output_order [OF assms(1) g0 assms(3)]
    by simp
qed

theorem findCommonGames_order_witness:
  "2 \<le> length [friend_T1, friend_T2] \<and> games ([friend_T1, friend_T2] ! 0) \<noteq> None
   \<and> playtimes_present [friend_T1, friend_T2]
   \<and> (\<exists>out. findCommonGames [friend_T1, friend_T2] = Inr out
          \<and> sorted_wrt (in_output_order [friend_T1, friend_T2]) out)"
proof -
  have len: "2 \<le> length [friend_T1, friend_T2]" by simp
  have present: "games ([friend_T1, friend_T2] ! 0) \<noteq> None"
    by (simp add: friend_T1_def)
  have playtimes: "playtimes_present [friend_T1, friend_T2]"
    by (simp add: playtimes_present_def friend_T1_def friend_T2_def games_or_empty_def)
  show ?thesis
    using len present playtimes findCommonGames_order [OF len present playtimes] by blast
qed

text \<open>On the example, Rust (total 21) comes first; Dota 2 and Terraria (total 10 each)
  follow in the order of the first library.\<close>

lemma findCommonGames_tie_example:
  "map_sum id (map result_name) (findCommonGames [friend_T1, friend_T2]) =
     Inr [Some (units ''Rust''), Some (units ''Dota 2''), Some (units ''Terraria'')]"
  by code_simp

section \<open>Properties of findAlmostMatchedGames\<close>

lemma map_has_iff: "map_has m k \<longleftrightarrow> map_of m k \<noteq> None"
  by (simp add: map_has_def map_of_eq_None_iff)

lemma map_of_map_modify:
  "map_of (map_modify m k f) = (map_of m)(k := map_option f (map_of m k))"
  by (induction m) (auto simp: fun_eq_iff)

lemma keys_map_modify: "map fst (map_modify m k f) = map fst m"
  by (induction m) auto

lemma keys_map_set:
  "map fst (map_set m k v) = (if k \<in> set (map fst m) then map fst m else map fst m @ [k])"
  by (induction m) (force+)

lemma distinct_keys_map_set: "distinct (map fst m) \<Longrightarrow> distinct (map fst (map_set m k v))"
  by (simp add: keys_map_set)

lemma map_of_record_owner:
  "map_of (record_owner n m g) =
     (map_of m)(appid g \<mapsto>
        (case map_of m (appid g) of
           None \<Rightarrow> \<lparr>data_game = g, data_owners = [n], data_missingOwners = []\<rparr>
         | Some d \<Rightarrow> d\<lparr>data_owners := data_owners d @ [n]\<rparr>))"
  by (auto simp: record_owner_def Let_def map_has_iff map_of_map_modify map_of_map_set fun_eq_iff)

lemma distinct_keys_record_owner:
  "distinct (map fst m) \<Longrightarrow> distinct (map fst (record_owner n m g))"
  by (simp add: record_owner_def Let_def keys_map_modify distinct_keys_map_set)

lemma owners_of_record_owner:
  "owners_of (record_owner n m g) k = owners_of m k @ (if appid g = k then [n] else [])"
  by (auto simp: owners_of_def map_of_record_owner split: option.splits)

lemma no_missing_record_owner: "no_missing m \<Longrightarrow> no_missing (record_owner n m g)"
  by (auto simp: no_missing_def map_of_record_owner split: option.splits if_splits)

lemma foldl_record_owner:
  "owners_of (foldl (record_owner n) m gs) k =
     owners_of m k @ map (\<lambda>g. n) (filter (\<lambda>g. appid g = k) gs)"
  by (induction gs arbitrary: m) (auto simp: owners_of_record_owner)

lemma foldl_record_owner_inv:
  "distinct (map fst m) \<Longrightarrow> no_missing m \<Longrightarrow>
   distinct (map fst (foldl (record_owner n) m gs)) \<and> no_missing (foldl (record_owner n) m gs)"
  by (induction gs arbitrary: m)
     (auto simp: distinct_keys_record_owner no_missing_record_owner)

lemma foldl_friends_owners:
  "owners_of (foldl (\<lambda>m friend. foldl (record_owner (friend_name friend)) m (games_or_empty friend))
                m friends) k =
   owners_of m k @ owner_names friends k"
  by (induction friends arbitrary: m) (auto simp: foldl_record_owner owner_names_def)

lemma foldl_friends_inv:
  "distinct (map fst m) \<Longrightarrow> no_missing m \<Longrightarrow>
   distinct (map fst (foldl (\<lambda>m friend. foldl (record_owner (friend_name friend)) m (games_or_empty friend)) m friends))
   \<and> no_missing (foldl (\<lambda>m friend. foldl (record_owner (friend_name friend)) m (games_or_empty friend)) m friends)"
  by (induction friends arbitrary: m) (auto simp: foldl_record_owner_inv)

lemma collect_owners_entry:
  assumes "(k, d) \<in> set (collect_owners friends)"
  shows "data_owners d = owner_names friends k" "data_missingOwners d = []"
proof -
  have inv: "distinct (map fst (collect_owners friends))" "no_missing (collect_owners friends)"
    using foldl_friends_inv [of "[]" friends] by (simp_all add: collect_owners_def no_missing_def)
  with assms have m: "map_of (collect_owners friends) k = Some d" by simp
  have "owners_of (collect_owners friends) k = owner_names friends k"
    using foldl_friends_owners [of "[]" friends k] by (simp add: collect_owners_def owners_of_def)
  with m show "data_owners d = owner_names friends k" by (simp add: owners_of_def)
  from inv(2) m show "data_missingOwners d = []" by (auto simp: no_missing_def)
qed

lemma fill_missing_foldl:
  "foldl (\<lambda>d friend. if friend_name friend \<notin> set (data_owners d)
                      then d\<lparr>data_missingOwners := data_missingOwners d @ [friend_name friend]\<rparr>
                      else d) data fs =
   data\<lparr>data_missingOwners := data_missingOwners data @
          filter (\<lambda>n. n \<notin> set (data_owners data)) (map friend_name fs)\<rparr>"
  by (induction fs arbitrary: data) auto

lemma fill_missing_eq:
  "fill_missing friends data =
     data\<lparr>data_missingOwners := data_missingOwners data @
          filter (\<lambda>n. n \<notin> set (data_owners data)) (map friend_name friends)\<rparr>"
  by (simp add: fill_missing_def fill_missing_foldl)

lemma findAlmostMatchedGames_element:
  assumes "r \<in> set (findAlmostMatchedGames friends)"
  shows "3 \<le> length friends \<and> (\<exists>k. owners r = owner_names friends k
           \<and> missingOwners r = filter (\<lambda>n. n \<notin> set (owner_names friends k)) (map friend_name friends)
           \<and> length (owner_names friends k) = length friends - 1
           \<and> am_ownerCount r = length (owners r))"
proof -
  from assms have len: "3 \<le> length friends"
    by (auto simp: findAlmostMatchedGames_def split: if_splits)
  with assms obtain k d where kd: "(k, d) \<in> set (collect_owners friends)"
    and len_d: "length (data_owners (fill_missing friends d)) = length friends - 1"
    and r: "r = almost_entry (fill_missing friends d)"
    by (auto simp: findAlmostMatchedGames_def Let_def set_js_sort)
  from collect_owners_entry [OF kd] r len_d len show ?thesis
    by (auto simp: fill_missing_eq almost_entry_def)
qed

lemma length_filter_key:
  "distinct (map h xs) \<Longrightarrow>
   length (filter (\<lambda>x. h x = k) xs) = (if k \<in> h ` set xs then 1 else 0)"
  by (induction xs) auto

lemma owner_names_distinct_libraries:
  assumes "distinct_libraries friends"
  shows "owner_names friends k = map friend_name (filter (owns k) friends)"
  using assms
proof (induction friends)
  case Nil
  then show ?case by (simp add: owner_names_def)
next
  case (Cons f fs)
  have d: "distinct (map appid (games_or_empty f))"
    using Cons.prems by (simp add: distinct_libraries_def)
  have "map (\<lambda>g. friend_name f) (filter (\<lambda>g. appid g = k) (games_or_empty f)) =
        replicate (if owns k f then 1 else 0) (friend_name f)"
    by (simp only: map_replicate_const length_filter_key [OF d] owns_def)
  with Cons show ?case
    by (simp add: owner_names_def distinct_libraries_def)
qed

lemma missing_distinct_names:
  assumes "distinct (map friend_name friends)"
  shows "filter (\<lambda>n. n \<notin> set (map friend_name (filter (owns k) friends))) (map friend_name friends)
         = map friend_name (filter (\<lambda>f. \<not> owns k f) friends)"
proof -
  have inj: "inj_on friend_name (set friends)"
    using assms by (simp add: distinct_map)
  have "\<forall>f \<in> set friends.
          (friend_name f \<notin> set (map friend_name (filter (owns k) friends))) = (\<not> owns k f)"
    using inj by (auto simp: inj_on_def)
  then show ?thesis
    by (simp add: filter_map comp_def cong: filter_cong)
qed

text \<open>
  Claim C4: for every result element of \<open>findAlmostMatchedGames\<close> the size of \<open>owners\<close>
  plus the size of \<open>missingOwners\<close> is the number of friends, and the size of \<open>owners\<close>
  is that number minus 1. The code's comments say the same ("Find who's missing each
  game", "exactly 1 person missing"), and the code breaks it when two accounts share a
  display name: line 76 looks the friend up among the owners by name, finds the namesake,
  and does not list the friend who lacks the game. Here Sam (the first account) does not
  own Left 4 Dead, and nobody is reported missing.
\<close>

theorem findAlmostMatchedGames_same_name_divergence:
  "findAlmostMatchedGames [friend_S1, friend_S2, friend_B] =
     [\<lparr>appid = 3, name = Some (units ''Left 4 Dead''), playtime_forever = Some 45,
       owners = [''Sam'', ''B''], missingOwners = [], am_ownerCount = 2\<rparr>]
   \<and> length [''Sam'', ''B''] + length ([] :: string list)
       \<noteq> length [friend_S1, friend_S2, friend_B]"
  by code_simp

text \<open>The scenario of the specification, where the names differ: Portal 2 is owned by A and
  C and missed by B.\<close>

lemma findAlmostMatchedGames_scenario:
  "findAlmostMatchedGames [friend_A, friend_B, friend_C] =
     [\<lparr>appid = 1, name = Some (units ''Portal 2''), playtime_forever = Some 90,
       owners = [''A'', ''C''], missingOwners = [''B''], am_ownerCount = 2\<rparr>]"
  by code_simp

text \<open>The length of \<open>owners\<close> is the number of friends minus 1 on every input. A shared
  display name is one of two ways to break the sum; apart from them (names pairwise
  distinct, no library holding an appId twice) \<open>owners\<close> and \<open>missingOwners\<close> do split
  the friends.\<close>

lemma findAlmostMatchedGames_partition:
  assumes "r \<in> set (findAlmostMatchedGames friends)"
  shows "length (owners r) = length friends - 1 \<and> am_ownerCount r = length friends - 1
     \<and> (distinct (map friend_name friends) \<and> distinct_libraries friends \<longrightarrow>
          length (owners r) + length (missingOwners r) = length friends
          \<and> distinct (owners r) \<and> distinct (missingOwners r)
          \<and> set (owners r) \<inter> set (missingOwners r) = {}
          \<and> set (owners r) \<union> set (missingOwners r) = friend_name ` set friends)"
proof -
  from findAlmostMatchedGames_element [OF assms] obtain k where
    len: "3 \<le> length friends"
    and o: "owners r = owner_names friends k"
    and m: "missingOwners r =
              filter (\<lambda>n. n \<notin> set (owner_names friends k)) (map friend_name friends)"
    and n1: "length (owner_names friends k) = length friends - 1"
    and c: "am_ownerCount r = length (owners r)"
    by blast
  have first: "length (owners r) = length friends - 1 \<and> am_ownerCount r = length friends - 1"
    using o n1 c by simp
  have second: "length (owners r) + length (missingOwners r) = length friends
          \<and> distinct (owners r) \<and> distinct (missingOwners r)
          \<and> set (owners r) \<inter> set (missingOwners r) = {}
          \<and> set (owners r) \<union> set (missingOwners r) = friend_name ` set friends"
    if dn: "distinct (map friend_name friends)" and dl: "distinct_libraries friends"
  proof -
    have o': "owners r = map friend_name (filter (owns k) friends)"
      using o owner_names_distinct_libraries [OF dl] by simp
    have m': "missingOwners r = map friend_name (filter (\<lambda>f. \<not> owns k f) friends)"
      using m missing_distinct_names [OF dn] owner_names_distinct_libraries [OF dl] by simp
    have inj: "inj_on friend_name (set friends)" "distinct friends"
      using dn by (simp_all add: distinct_map)
    have "length (owners r) + length (missingOwners r) = length friends"
      by (simp add: o' m' sum_length_filter_compl)
    moreover have "distinct (owners r)" "distinct (missingOwners r)"
      using inj by (auto simp: o' m' distinct_map intro: inj_on_subset)
    moreover have "set (owners r) \<inter> set (missingOwners r) = {}"
      using inj(1) by (auto simp: o' m' inj_on_def)
    moreover have "set (owners r) \<union> set (missingOwners r) = friend_name ` set friends"
      by (auto simp: o' m')
    ultimately show ?thesis by simp
  qed
  from first second show ?thesis by blast
qed

text \<open>A library that holds an appId twice breaks the sum as well: A is pushed onto the
  owners of Portal 2 twice, so the game passes the filter with one owner and two friends
  missing.\<close>

lemma findAlmostMatchedGames_duplicate_game_example:
  "findAlmostMatchedGames [friend_A2, friend_B, friend_S2] =
     [\<lparr>appid = 1, name = Some (units ''Portal 2''), playtime_forever = Some 90,
       owners = [''A'', ''A''], missingOwners = [''B'', ''Sam''], am_ownerCount = 2\<rparr>,
      \<lparr>appid = 3, name = Some (units ''Left 4 Dead''), playtime_forever = Some 45,
       owners = [''B'', ''Sam''], missingOwners = [''A''], am_ownerCount = 2\<rparr>]"
  by code_simp

section \<open>Playtimes as they are given\<close>













text \<open>A missing playtime is not read as 0 by \<open>findCommonGames\<close> either: line 34 adds
  \<open>undefined\<close>, and the total and the average become \<open>NaN\<close>.\<close>

lemma findCommonGames_missing_playtime_example:
  "findCommonGames [friend_N1, friend_M] =
     Inr [\<lparr>game_spread = Some half_life_5, totalPlaytime = Some NaN,
           averagePlaytime = Some NaN, ownerCount = Some 2\<rparr>]"
  by code_simp

section \<open>Properties of analyzeSharedGenres\<close>

lemma map_of_count_genre:
  "map_of (count_genre n m g) =
     (map_of m)(g \<mapsto>
        (case map_of m g of
           None \<Rightarrow> \<lparr>count = 1, friendsWithGenre = [n]\<rparr>
         | Some d \<Rightarrow> d\<lparr>count := count d + 1, friendsWithGenre := set_add (friendsWithGenre d) n\<rparr>))"
  by (auto simp: count_genre_def Let_def map_has_iff map_of_map_modify map_of_map_set fun_eq_iff
        set_add_def)

lemma distinct_keys_count_genre:
  "distinct (map fst m) \<Longrightarrow> distinct (map fst (count_genre n m g))"
  by (simp add: count_genre_def Let_def keys_map_modify distinct_keys_map_set)

lemma count_of_count_genre:
  "count_of (count_genre n m g') g = count_of m g + (if g' = g then 1 else 0)"
  by (auto simp: count_of_def map_of_count_genre split: option.splits)

lemma names_of_count_genre:
  "names_of (count_genre n m g') g =
     (if g' = g then set_add (names_of m g) n else names_of m g)"
  by (auto simp: names_of_def map_of_count_genre set_add_def split: option.splits)

lemma foldl_count_genre_count:
  "distinct gs \<Longrightarrow>
   count_of (foldl (count_genre n) m gs) g = count_of m g + (if g \<in> set gs then 1 else 0)"
  by (induction gs arbitrary: m) (auto simp: count_of_count_genre)

lemma foldl_count_genre_names:
  "distinct gs \<Longrightarrow>
   names_of (foldl (count_genre n) m gs) g =
     (if g \<in> set gs then set_add (names_of m g) n else names_of m g)"
  by (induction gs arbitrary: m) (auto simp: names_of_count_genre)

lemma foldl_count_genre_keys:
  "distinct (map fst m) \<Longrightarrow> distinct (map fst (foldl (count_genre n) m gs))"
  by (induction gs arbitrary: m) (auto simp: distinct_keys_count_genre)

lemma distinct_game_genres_step: "distinct s \<Longrightarrow> distinct (game_genres_step u gd s g)"
  by (auto simp: game_genres_step_def Let_def distinct_foldl_set_add split: option.splits)

lemma distinct_foldl_game_genres_step:
  "distinct s \<Longrightarrow> distinct (foldl (game_genres_step u gd) s gs)"
  by (induction gs arbitrary: s) (auto simp: distinct_game_genres_step)

lemma distinct_friendGenres: "distinct (friendGenres u gd f)"
  by (simp add: friendGenres_def distinct_foldl_game_genres_step)

lemma foldl_friends_count:
  "count_of (foldl (\<lambda>m friend. foldl (count_genre (friend_name friend)) m (friendGenres u gd friend))
               m friends) g =
   count_of m g + length (filter (has_genre u gd g) friends)"
  by (induction friends arbitrary: m)
     (auto simp: foldl_count_genre_count distinct_friendGenres has_genre_def)

lemma foldl_friends_names:
  "names_of (foldl (\<lambda>m friend. foldl (count_genre (friend_name friend)) m (friendGenres u gd friend))
               m friends) g =
   foldl set_add (names_of m g) (map friend_name (filter (has_genre u gd g) friends))"
  by (induction friends arbitrary: m)
     (auto simp: foldl_count_genre_names distinct_friendGenres has_genre_def)

lemma foldl_friends_keys:
  "distinct (map fst m) \<Longrightarrow>
   distinct (map fst (foldl (\<lambda>m friend. foldl (count_genre (friend_name friend)) m
                                (friendGenres u gd friend)) m friends))"
  by (induction friends arbitrary: m) (auto simp: foldl_count_genre_keys)

lemma genreCounts_entry:
  assumes "(g, d) \<in> set (genreCounts u gd friends)"
  shows "count d = length (filter (has_genre u gd g) friends)"
    and "friendsWithGenre d = new_Set (map friend_name (filter (has_genre u gd g) friends))"
proof -
  have "distinct (map fst (genreCounts u gd friends))"
    using foldl_friends_keys [of "[]" u gd friends] by (simp add: genreCounts_def)
  with assms have m: "map_of (genreCounts u gd friends) g = Some d" by simp
  have "count_of (genreCounts u gd friends) g = length (filter (has_genre u gd g) friends)"
    using foldl_friends_count [of u gd "[]" friends g] by (simp add: genreCounts_def count_of_def)
  with m show "count d = length (filter (has_genre u gd g) friends)"
    by (simp add: count_of_def)
  have "names_of (genreCounts u gd friends) g =
          new_Set (map friend_name (filter (has_genre u gd g) friends))"
    using foldl_friends_names [of u gd "[]" friends g]
    by (simp add: genreCounts_def names_of_def new_Set_def)
  with m show "friendsWithGenre d = new_Set (map friend_name (filter (has_genre u gd g) friends))"
    by (simp add: names_of_def)
qed

lemma analyzeSharedGenres_element:
  assumes "sg \<in> set (analyzeSharedGenres u friends gd)"
  shows "count sg = length (filter (has_genre u gd (genre sg)) friends)"
    and "friendsWithGenre sg =
           new_Set (map friend_name (filter (has_genre u gd (genre sg)) friends))"
    and "length (friendsWithGenre sg) = length friends"
proof -
  from assms obtain g d where gd: "(g, d) \<in> set (genreCounts u gd friends)"
    and len: "length (friendsWithGenre d) = length friends"
    and sg: "sg = \<lparr>count = count d, friendsWithGenre = friendsWithGenre d, genre = g\<rparr>"
    by (auto simp: analyzeSharedGenres_def set_js_sort)
  from genreCounts_entry [OF gd] sg len
  show "count sg = length (filter (has_genre u gd (genre sg)) friends)"
    and "friendsWithGenre sg =
           new_Set (map friend_name (filter (has_genre u gd (genre sg)) friends))"
    and "length (friendsWithGenre sg) = length friends"
    by simp_all
qed

lemma length_new_Set_le: "length (new_Set xs) \<le> length xs"
proof -
  have "length (new_Set xs) = card (set xs)"
    using distinct_card [OF distinct_new_Set, of xs] by (simp add: set_new_Set)
  then show ?thesis by (simp add: card_length)
qed

lemma analyzeSharedGenres_count_all:
  assumes "sg \<in> set (analyzeSharedGenres u friends gd)"
  shows "count sg = length friends"
proof -
  let ?with = "filter (has_genre u gd (genre sg)) friends"
  from analyzeSharedGenres_element [OF assms]
  have c: "count sg = length ?with"
    and n: "length (new_Set (map friend_name ?with)) = length friends"
    by simp_all
  have "length friends \<le> length ?with"
    using length_new_Set_le [of "map friend_name ?with"] n by simp
  moreover have "length ?with \<le> length friends" by simp
  ultimately show ?thesis using c by simp
qed

text \<open>
  Claim C1, as stated: the \<open>count\<close> of a result element is the number of games tagged
  with the genre across the union of the libraries. It fails: \<open>count\<close> is incremented
  once for every friend whose set of genres holds the genre, however many games carry it.
\<close>

theorem analyzeSharedGenres_count_counterexample:
  "analyzeSharedGenres keep_units [friend_G1, friend_G2] None =
     [\<lparr>count = 2, friendsWithGenre = [''G1'', ''G2''], genre = ''RPG''\<rparr>]
   \<and> games_tagged keep_units None [friend_G1, friend_G2] ''RPG'' = [7, 8, 9]
   \<and> (2 :: nat) \<noteq> length (games_tagged keep_units None [friend_G1, friend_G2] ''RPG'')"
  by code_simp

text \<open>
  Claim C1, amended: for every friend list, every element returned by
  \<open>analyzeSharedGenres\<close> has its \<open>count\<close> equal to the number of friends of the list
  who have at least one game with that genre, each friend counted once.
\<close>

theorem analyzeSharedGenres_count_friends:
  assumes "sg \<in> set (analyzeSharedGenres u friends gameDetails)"
  shows "count sg = length (filter (has_genre u gameDetails (genre sg)) friends)"
  using analyzeSharedGenres_element(1) [OF assms] .

theorem analyzeSharedGenres_count_friends_witness:
  "\<lparr>count = 2, friendsWithGenre = [''G1'', ''G2''], genre = ''RPG''\<rparr>
     \<in> set (analyzeSharedGenres keep_units [friend_G1, friend_G2] None)
   \<and> length (filter (has_genre keep_units None ''RPG'') [friend_G1, friend_G2]) = 2"
proof -
  let ?sg = "\<lparr>count = 2, friendsWithGenre = [''G1'', ''G2''], genre = ''RPG''\<rparr>"
  have "analyzeSharedGenres keep_units [friend_G1, friend_G2] None = [?sg]"
    by code_simp
  then have mem: "?sg \<in> set (analyzeSharedGenres keep_units [friend_G1, friend_G2] None)"
    by simp
  from analyzeSharedGenres_count_friends [OF mem] mem show ?thesis by simp
qed

text \<open>
  Claim C10: for every friend list with pairwise distinct display names, every element
  of the output of \<open>analyzeSharedGenres\<close> has \<open>count\<close> equal to the length of the
  friend list.
\<close>

theorem analyzeSharedGenres_count_is_length:
  assumes "distinct (map friend_name friends)"
    and "sg \<in> set (analyzeSharedGenres u friends gameDetails)"
  shows "count sg = length friends"
  using analyzeSharedGenres_count_all [OF assms(2)] .

theorem analyzeSharedGenres_count_is_length_witness:
  "distinct (map friend_name [friend_B, friend_S2])
   \<and> \<lparr>count = 2, friendsWithGenre = [''B'', ''Sam''], genre = ''Horror''\<rparr>
       \<in> set (analyzeSharedGenres keep_units [friend_B, friend_S2] None)
   \<and> (2::nat) = length [friend_B, friend_S2]"
proof -
  let ?sg = "\<lparr>count = 2, friendsWithGenre = [''B'', ''Sam''], genre = ''Horror''\<rparr>"
  have names: "distinct (map friend_name [friend_B, friend_S2])"
    by code_simp
  have "analyzeSharedGenres keep_units [friend_B, friend_S2] None = [?sg]"
    by code_simp
  then have mem: "?sg \<in> set (analyzeSharedGenres keep_units [friend_B, friend_S2] None)"
    by simp
  from analyzeSharedGenres_count_is_length [OF names mem] names mem show ?thesis by simp
qed

section \<open>Genre inference and letter case\<close>





lemma keywords_lower_case:
  "list_all (\<lambda>(g, words). list_all (\<lambda>word. list_all (\<lambda>c. c < 256 \<and> \<not> is_capital c) (units word)) words)
     genre_keywords"
  by code_simp















lemma lower_from_below_256:
  "\<forall>c \<in> set s. c < 256 \<Longrightarrow> lower_from u before s = map lower_unit s"
  by (induction s arbitrary: before) auto




section \<open>The recommendation request and the normalised response\<close>

text \<open>
  Claim C8: for every well-formed reply of the service (the response ok, \<open>success\<close> true,
  \<open>recommendations\<close> an array), the normalisation returns one record for each entry of
  \<open>recommendations\<close>, in the same order, each with the entry's name, price, overview,
  reason and tags unchanged and its \<open>player_count\<close> under the name \<open>playerCount\<close>.
\<close>

theorem normalize_response_entries:
  assumes "ok response" "success (json response)" "recommendations (json response) = Some recs"
  shows "\<exists>out. normalize_response response = Inr out \<and> length out = length recs
     \<and> (\<forall>i < length recs.
           rec_name (out ! i) = raw_name (recs ! i)
         \<and> rec_price (out ! i) = raw_price (recs ! i)
         \<and> rec_overview (out ! i) = raw_overview (recs ! i)
         \<and> rec_reason (out ! i) = raw_reason (recs ! i)
         \<and> playerCount (out ! i) = player_count (recs ! i)
         \<and> rec_tags (out ! i) = raw_tags (recs ! i))"
  using assms by (simp add: normalize_response_def transform_recommendation_def)

theorem normalize_response_entries_witness:
  "ok example_response \<and> success (json example_response)
   \<and> recommendations (json example_response) = Some example_recommendations
   \<and> (\<exists>out. normalize_response example_response = Inr out
         \<and> length out = length example_recommendations
         \<and> (\<forall>i < length example_recommendations.
               rec_name (out ! i) = raw_name (example_recommendations ! i)
             \<and> rec_price (out ! i) = raw_price (example_recommendations ! i)
             \<and> rec_overview (out ! i) = raw_overview (example_recommendations ! i)
             \<and> rec_reason (out ! i) = raw_reason (example_recommendations ! i)
             \<and> playerCount (out ! i) = player_count (example_recommendations ! i)
             \<and> rec_tags (out ! i) = raw_tags (example_recommendations ! i)))"
proof -
  have is_ok: "ok example_response" and succeeded: "success (json example_response)"
    and recs: "recommendations (json example_response) = Some example_recommendations"
    by (simp_all add: example_response_def)
  show ?thesis
    using is_ok succeeded recs normalize_response_entries [OF is_ok succeeded recs] by blast
qed

text \<open>
  Claim C9: whatever the last match computed, a request that is sent holds at most 10 game
  names and at most 5 genre names, the first 10 and the first 5 of the stored results; after
  a match of two or more friends these are the results of \<open>findCommonGames\<close> and
  \<open>analyzeSharedGenres\<close> on those friends, in their order.
\<close>

theorem recommendation_request_capped:
  assumes "recommendation_request_of selected (handleFindMatches u friends a) = Some req"
  shows "length (common_games req) \<le> 10 \<and> length (shared_genres req) \<le> 5
     \<and> common_games req = map result_name (take 10 (lastCommonGames (handleFindMatches u friends a)))
     \<and> shared_genres req = map genre (take 5 (lastSharedGenres (handleFindMatches u friends a)))
     \<and> (2 \<le> length friends \<and> findCommonGames friends = Inr commonGames \<longrightarrow>
           common_games req = map result_name (take 10 commonGames)
         \<and> shared_genres req = map genre (take 5 (analyzeSharedGenres u friends None)))"
  using assms
  by (auto simp: recommendation_request_of_def handleFindMatches_def split: if_splits)

theorem recommendation_request_capped_witness:
  "recommendation_request_of [friend_L1, friend_L2]
     (handleFindMatches keep_units [friend_L1, friend_L2] new_app) = Some big_request
   \<and> 2 \<le> length [friend_L1, friend_L2]
   \<and> findCommonGames [friend_L1, friend_L2] = Inr big_common
   \<and> length big_common = 12
   \<and> length (common_games big_request) \<le> 10
   \<and> common_games big_request = map result_name (take 10 big_common)"
proof -
  have sent: "recommendation_request_of [friend_L1, friend_L2]
     (handleFindMatches keep_units [friend_L1, friend_L2] new_app) = Some big_request"
    by code_simp
  have len: "2 \<le> length [friend_L1, friend_L2]" by simp
  have found: "findCommonGames [friend_L1, friend_L2] = Inr big_common"
    by code_simp
  have twelve: "length big_common = 12"
    by code_simp
  from recommendation_request_capped [OF sent, where commonGames = big_common] sent len found twelve
  show ?thesis by blast
qed

end
